theory Spec2Isabelle
  imports Complex_Main "HOL-Library.Word" "HOL-Library.Multiset"
begin

section \<open>Values, errors and the dense containers\<close>

text \<open>
  The C++ \<^verbatim>\<open>double\<close> is modelled by \<^typ>\<open>real\<close>: sums, quotients and comparisons are
  the exact ones, rounding, infinities and NaN are not modelled.  Sizes and indices
  (\<^verbatim>\<open>size_t\<close>) are \<^typ>\<open>nat\<close>, except the depth budget \<^verbatim>\<open>maximumDepth\<close>, which the
  code decrements without a guard and which is therefore a 64-bit word.

  An exception thrown by a checked container access, and the undefined behaviour of an
  unchecked one, are both values of the type \<open>error\<close>; a function that can fail returns
  \<open>error + 'a\<close>.  A failed call returns no state.
\<close>

datatype error =
    OutOfBounds        \<comment> \<open>a bounds check of the matrix library failed (it throws)\<close>
  | InvalidArgument    \<comment> \<open>the dataset descriptor was asked about a dimension it lacks\<close>
  | UncheckedAccess    \<comment> \<open>an unchecked \<^verbatim>\<open>operator[]\<close> outside its container\<close>

text \<open>A matrix is the list of its columns (one column per sample), a row vector a list.\<close>

type_synonym mat = "real list list"

text \<open>
  \<^verbatim>\<open>x.cols(begin, begin + count - 1)\<close>.  The library rejects a span whose first index
  exceeds its last or whose last index is not a column.  For \<^verbatim>\<open>count == 0\<close> the last
  index is \<^verbatim>\<open>begin - 1\<close>, which is below \<^verbatim>\<open>begin\<close>, or wraps to the largest
  \<^verbatim>\<open>size_t\<close> when \<^verbatim>\<open>begin == 0\<close>: both are rejected, which is the first disjunct.
\<close>

definition cols :: "'a list \<Rightarrow> nat \<Rightarrow> nat \<Rightarrow> error + 'a list" where
  "cols x begin cnt =
     (if cnt = 0 \<or> length x < begin + cnt then Inl OutOfBounds
      else Inr (take cnt (drop begin x)))"

text \<open>\<^verbatim>\<open>m.row(i)\<close> of a matrix (or of a span of columns).\<close>

definition row :: "mat \<Rightarrow> nat \<Rightarrow> error + real list" where
  "row m i =
     (if list_all (\<lambda>c. i < length c) m then Inr (map (\<lambda>c. c ! i) m)
      else Inl OutOfBounds)"

text \<open>\<^verbatim>\<open>m(r, c)\<close>, the checked element access.\<close>

definition element :: "mat \<Rightarrow> nat \<Rightarrow> nat \<Rightarrow> error + real" where
  "element m r c =
     (if c < length m \<and> r < length (m ! c) then Inr (m ! c ! r)
      else Inl OutOfBounds)"

text \<open>\<^verbatim>\<open>x.swap_cols(a, b)\<close>.\<close>

definition swap_cols :: "'a list \<Rightarrow> nat \<Rightarrow> nat \<Rightarrow> error + 'a list" where
  "swap_cols x a b =
     (if a < length x \<and> b < length x then Inr (x[a := x ! b, b := x ! a])
      else Inl OutOfBounds)"

definition n_rows :: "mat \<Rightarrow> nat" where
  "n_rows m = (case m of [] \<Rightarrow> 0 | c # _ \<Rightarrow> length c)"

text \<open>
  \<^verbatim>\<open>DBL_MAX\<close>, the largest finite double; the split evaluators return it to say
  that they did not split.
\<close>

definition DBL_MAX :: real where
  "DBL_MAX = (2 ^ 53 - 1) * 2 ^ 971"

section \<open>Collaborators of the tree\<close>

text \<open>
  Modelled from the spec: the dataset descriptor, which is not among the sources.  It
  holds, per dimension, a type tag and, for a categorical dimension, its cardinality;
  asking for the type of a dimension it does not have is an error.
\<close>

datatype Datatype = numeric | categorical

type_synonym DatasetInfo = "(Datatype \<times> nat) list"

definition Dimensionality :: "DatasetInfo \<Rightarrow> nat" where
  "Dimensionality info = length info"

definition Type :: "DatasetInfo \<Rightarrow> nat \<Rightarrow> error + Datatype" where
  "Type info i = (if i < length info then Inr (fst (info ! i)) else Inl InvalidArgument)"

definition NumMappings :: "DatasetInfo \<Rightarrow> nat \<Rightarrow> nat" where
  "NumMappings info i = (if i < length info then snd (info ! i) else 0)"

text \<open>
  The type tag is stored in a node as a \<^verbatim>\<open>size_t\<close> and cast back when a point is
  routed.
\<close>

definition size_t_of_Datatype :: "Datatype \<Rightarrow> nat" where
  "size_t_of_Datatype ty = (if ty = categorical then 1 else 0)"

definition Datatype_of_size_t :: "nat \<Rightarrow> Datatype" where
  "Datatype_of_size_t n = (if n = 0 then numeric else categorical)"

text \<open>
  Modelled from the spec: the dimension selector, which is not among the sources.  It
  enumerates all dimensions in order, from \<^verbatim>\<open>Begin()\<close>, which is 0, by \<^verbatim>\<open>Next()\<close> up
  to \<^verbatim>\<open>End()\<close>, its number of dimensions.  The selector is represented by that number.
\<close>

definition candidates :: "nat \<Rightarrow> nat list" where
  "candidates dimensionSelector = [0..<dimensionSelector]"

text \<open>
  Modelled from the spec: the feature importance sink, which is not among the sources.
  It keeps a frequency and a cumulative gain (cover) per dimension, and each call adds
  its amount to the entry of its dimension.
\<close>

record FeatureImportance =
  frequency :: "nat \<Rightarrow> nat"
  cover :: "nat \<Rightarrow> real"

definition increaseFeatureFrequency :: "FeatureImportance \<Rightarrow> nat \<Rightarrow> nat \<Rightarrow> FeatureImportance" where
  "increaseFeatureFrequency f d amount = f\<lparr>frequency := (frequency f)(d := frequency f d + amount)\<rparr>"

definition increaseFeatureCover :: "FeatureImportance \<Rightarrow> nat \<Rightarrow> real \<Rightarrow> FeatureImportance" where
  "increaseFeatureCover f d amount = f\<lparr>cover := (cover f)(d := cover f d + amount)\<rparr>"

section \<open>The tree node\<close>

text \<open>
  The anonymous union of the class, which holds the prediction of a leaf or the split
  dimension of an internal node in one slot, is a datatype that remembers which member
  was written last.
\<close>

datatype storage = Prediction real | SplitDimension nat

text \<open>
  The members of the class, in the order of their declaration, and two fields more that
  the class does not have: \<open>trainBegin\<close> and \<open>trainCount\<close> record the arguments
  \<^verbatim>\<open>begin\<close> and \<^verbatim>\<open>count\<close> of the call of \<^verbatim>\<open>Train\<close> that built the node.  No operation
  reads them; they are there so that the column range of a node can be named in a
  statement about the tree.
\<close>

datatype XGBTree = XGBTree
  (children: "XGBTree list")
  (slot: storage)
  (dimensionType: nat)
  (splitInfo: "real list")
  (nodeGain: real)
  (trainBegin: nat)
  (trainCount: nat)

text \<open>
  The gain function and the two split evaluators are not among the sources, nor is the
  way the platform reads one member of the union through the other.  The operations of
  the tree take them as a parameter, a record of functions; the auxiliary split
  information of both evaluators is an empty class and is left out.  An evaluator
  receives the split information of the node and returns it with its gain, changed or
  not.  The last field is the state of a node after the default constructor, which
  initialises nothing: its children and its split information are empty and its scalar
  members are whatever the record says.
\<close>

record Collaborators =
  Evaluate :: "real list \<Rightarrow> real list \<Rightarrow> real"
  OutputLeafValue :: "real list \<Rightarrow> real list \<Rightarrow> real"
  NumericSplitIfBetter ::
    "real \<Rightarrow> real list \<Rightarrow> real list \<Rightarrow> real list \<Rightarrow> nat \<Rightarrow> real \<Rightarrow> real list \<Rightarrow> real \<times> real list"
  CategoricalSplitIfBetter ::
    "real \<Rightarrow> real list \<Rightarrow> nat \<Rightarrow> real list \<Rightarrow> real list \<Rightarrow> nat \<Rightarrow> real \<Rightarrow> real list \<Rightarrow> real \<times> real list"
  NumericNumChildren :: "real list \<Rightarrow> nat"
  CategoricalNumChildren :: "real list \<Rightarrow> nat"
  NumericCalculateDirection :: "real \<Rightarrow> real list \<Rightarrow> nat"
  CategoricalCalculateDirection :: "real \<Rightarrow> real list \<Rightarrow> nat"
  double_of_size_t_bits :: "nat \<Rightarrow> real"
  size_t_of_double_bits :: "real \<Rightarrow> nat"
  uninitialised :: XGBTree

definition new_XGBTree :: "Collaborators \<Rightarrow> XGBTree" where
  "new_XGBTree E =
     XGBTree [] (slot (uninitialised E)) (dimensionType (uninitialised E)) []
       (nodeGain (uninitialised E)) (trainBegin (uninitialised E)) (trainCount (uninitialised E))"

text \<open>Reading the union as \<^verbatim>\<open>prediction\<close> and as \<^verbatim>\<open>splitDimension\<close>.\<close>

definition read_prediction :: "Collaborators \<Rightarrow> storage \<Rightarrow> real" where
  "read_prediction E s =
     (case s of Prediction p \<Rightarrow> p | SplitDimension d \<Rightarrow> double_of_size_t_bits E d)"

definition read_splitDimension :: "Collaborators \<Rightarrow> storage \<Rightarrow> nat" where
  "read_splitDimension E s =
     (case s of SplitDimension d \<Rightarrow> d | Prediction p \<Rightarrow> size_t_of_double_bits E p)"

section \<open>Train\<close>

text \<open>
  The scan of the candidate dimensions (the loop under \<^verbatim>\<open>maximumDepth != 1\<close>): the
  state is \<^verbatim>\<open>bestDim\<close>, \<^verbatim>\<open>bestGain\<close> and the split information of the node.  An
  evaluator that returns \<^verbatim>\<open>DBL_MAX\<close> did not split, and the scan goes on; any other
  gain becomes the best one, and a non-negative gain ends the scan.
\<close>

fun scan_dimensions ::
  "Collaborators \<Rightarrow> mat \<Rightarrow> nat \<Rightarrow> nat \<Rightarrow> DatasetInfo \<Rightarrow> real list \<Rightarrow> real list \<Rightarrow> nat \<Rightarrow> real \<Rightarrow>
   nat list \<Rightarrow> nat \<times> real \<times> real list \<Rightarrow> error + (nat \<times> real \<times> real list)" where
  "scan_dimensions E dat begin cnt info resp wts minimumLeafSize minimumGainSplit [] st = Inr st"
| "scan_dimensions E dat begin cnt info resp wts minimumLeafSize minimumGainSplit (i # rest)
     (bestDim, bestGain, sInfo) =
     (case Type info i of Inl e \<Rightarrow> Inl e
      | Inr ty \<Rightarrow>
     (case cols dat begin cnt of Inl e \<Rightarrow> Inl e
      | Inr dataView \<Rightarrow>
     (case row dataView i of Inl e \<Rightarrow> Inl e
      | Inr feature \<Rightarrow>
     (case cols resp begin cnt of Inl e \<Rightarrow> Inl e
      | Inr respView \<Rightarrow>
        (let (dimGain, sInfo') =
               (if ty = categorical then
                  CategoricalSplitIfBetter E bestGain feature (NumMappings info i) respView wts
                    minimumLeafSize minimumGainSplit sInfo
                else if ty = numeric then
                  NumericSplitIfBetter E bestGain feature respView wts
                    minimumLeafSize minimumGainSplit sInfo
                else (- DBL_MAX, sInfo))
         in if dimGain = DBL_MAX then
              scan_dimensions E dat begin cnt info resp wts minimumLeafSize minimumGainSplit rest
                (bestDim, bestGain, sInfo')
            else if dimGain \<ge> 0 then Inr (i, dimGain, sInfo')
            else
              scan_dimensions E dat begin cnt info resp wts minimumLeafSize minimumGainSplit rest
                (i, dimGain, sInfo'))))))"

text \<open>
  The child assignment of every column \<^verbatim>\<open>j\<close> of the range, from the checked read
  \<^verbatim>\<open>data(bestDim, j)\<close> and the direction function of the winning evaluator.
\<close>

fun child_assignments ::
  "(real \<Rightarrow> real list \<Rightarrow> nat) \<Rightarrow> mat \<Rightarrow> nat \<Rightarrow> real list \<Rightarrow> nat list \<Rightarrow> error + nat list" where
  "child_assignments direction dat bestDim sInfo [] = Inr []"
| "child_assignments direction dat bestDim sInfo (j # js) =
     (case element dat bestDim j of Inl e \<Rightarrow> Inl e
      | Inr v \<Rightarrow>
     (case child_assignments direction dat bestDim sInfo js of Inl e \<Rightarrow> Inl e
      | Inr rest \<Rightarrow> Inr (direction v sInfo # rest)))"

text \<open>
  The counts of the children: \<^verbatim>\<open>childCounts[childAssignments[i - begin]]++\<close> for every
  column, an unchecked access.
\<close>

fun count_children :: "nat list \<Rightarrow> nat list \<Rightarrow> error + nat list" where
  "count_children [] childCounts = Inr childCounts"
| "count_children (a # rest) childCounts =
     (if a < length childCounts then count_children rest (childCounts[a := childCounts ! a + 1])
      else Inl UncheckedAccess)"

text \<open>
  The inner loop of the partition, for child \<^verbatim>\<open>i\<close>, from column \<^verbatim>\<open>j\<close> on: a column
  assigned to \<^verbatim>\<open>i\<close> is swapped with the column under the cursor \<^verbatim>\<open>currentCol\<close>, in
  the assignments, in the feature matrix and in the responses, and the cursor advances.
\<close>

function partition_pass ::
  "nat \<Rightarrow> nat \<Rightarrow> nat \<Rightarrow> nat \<Rightarrow> nat list \<times> mat \<times> real list \<times> nat \<Rightarrow>
   error + (nat list \<times> mat \<times> real list \<times> nat)" where
  "partition_pass i begin cnt j (childAssignments, dat, resp, currentCol) =
     (if j < begin + cnt then
        (if childAssignments ! (j - begin) = i then
           (case swap_cols childAssignments (currentCol - begin) (j - begin) of Inl e \<Rightarrow> Inl e
            | Inr childAssignments' \<Rightarrow>
           (case swap_cols dat currentCol j of Inl e \<Rightarrow> Inl e
            | Inr dat' \<Rightarrow>
           (case swap_cols resp currentCol j of Inl e \<Rightarrow> Inl e
            | Inr resp' \<Rightarrow>
              partition_pass i begin cnt (j + 1)
                (childAssignments', dat', resp', currentCol + 1))))
         else partition_pass i begin cnt (j + 1) (childAssignments, dat, resp, currentCol))
      else Inr (childAssignments, dat, resp, currentCol))"
  by pat_completeness auto
termination
  by (relation "measure (\<lambda>(i, begin, cnt, j, st). begin + cnt - j)") auto

text \<open>What \<^verbatim>\<open>Train\<close> hands back: the node it built, the value it returns, and the
  arguments it received by mutable reference.\<close>

record TrainResult =
  r_node :: XGBTree
  r_return :: real
  r_data :: mat
  r_responses :: "real list"
  r_weights :: "real list"
  r_featImp :: "FeatureImportance option"

text \<open>The two calls on the sink, skipped when the handle is null.\<close>

definition notify :: "FeatureImportance option \<Rightarrow> nat \<Rightarrow> real \<Rightarrow> FeatureImportance option" where
  "notify featImp bestDim bestGain =
     (case featImp of None \<Rightarrow> None
      | Some f \<Rightarrow> Some (increaseFeatureCover (increaseFeatureFrequency f bestDim 1) bestDim bestGain))"

text \<open>
  \<^verbatim>\<open>Train\<close>, and the loop over the children of a split, which partitions for child
  \<^verbatim>\<open>i\<close>, trains it on the columns from \<^verbatim>\<open>currentChildBegin\<close> to the cursor and adds
  its weighted gain.  The loop receives the depth budget of the children, which is
  \<^verbatim>\<open>maximumDepth - 1\<close> on 64 bits.
\<close>

function Train ::
  "Collaborators \<Rightarrow> XGBTree \<Rightarrow> mat \<Rightarrow> nat \<Rightarrow> nat \<Rightarrow> DatasetInfo \<Rightarrow> real list \<Rightarrow> real list \<Rightarrow>
   nat \<Rightarrow> real \<Rightarrow> 64 word \<Rightarrow> nat \<Rightarrow> FeatureImportance option \<Rightarrow> error + TrainResult"
and split_children ::
  "Collaborators \<Rightarrow> nat \<Rightarrow> nat \<Rightarrow> DatasetInfo \<Rightarrow> nat \<Rightarrow> real \<Rightarrow> 64 word \<Rightarrow> nat \<Rightarrow>
   nat \<Rightarrow> nat \<Rightarrow> nat list \<Rightarrow> nat list \<Rightarrow> mat \<Rightarrow> real list \<Rightarrow> real list \<Rightarrow>
   FeatureImportance option \<Rightarrow> nat \<Rightarrow> real \<Rightarrow> XGBTree list \<Rightarrow>
   error + (mat \<times> real list \<times> real list \<times> FeatureImportance option \<times> nat \<times> real \<times> XGBTree list)"
where
  "Train E this dat begin cnt info resp wts minimumLeafSize minimumGainSplit maximumDepth
     dimensionSelector featImp =
     (case cols resp begin cnt of Inl e \<Rightarrow> Inl e
      | Inr respView \<Rightarrow>
     (case (if maximumDepth \<noteq> 1 then
              scan_dimensions E dat begin cnt info resp wts minimumLeafSize minimumGainSplit
                (candidates dimensionSelector)
                (Dimensionality info, Evaluate E respView wts, splitInfo this)
            else Inr (Dimensionality info, Evaluate E respView wts, splitInfo this)) of
        Inl e \<Rightarrow> Inl e
      | Inr (bestDim, bestGain, sInfo) \<Rightarrow>
        if bestDim \<noteq> Dimensionality info then
          (case Type info bestDim of Inl e \<Rightarrow> Inl e
           | Inr ty \<Rightarrow>
          (case child_assignments
                  (if ty = categorical then CategoricalCalculateDirection E
                   else NumericCalculateDirection E)
                  dat bestDim sInfo [begin..<begin + cnt] of Inl e \<Rightarrow> Inl e
           | Inr childAssignments \<Rightarrow>
          (case count_children childAssignments
                  (replicate (if ty = categorical then CategoricalNumChildren E sInfo
                              else NumericNumChildren E sInfo) 0) of Inl e \<Rightarrow> Inl e
           | Inr childCounts \<Rightarrow>
          (case split_children E begin cnt info minimumLeafSize minimumGainSplit
                  (maximumDepth - 1) dimensionSelector 0
                  (if ty = categorical then CategoricalNumChildren E sInfo
                   else NumericNumChildren E sInfo)
                  childCounts childAssignments dat resp wts (notify featImp bestDim bestGain)
                  begin 0 [] of Inl e \<Rightarrow> Inl e
           | Inr (dat', resp', wts', featImp', currentCol, bestGain', kids) \<Rightarrow>
               Inr \<lparr>r_node = XGBTree kids (SplitDimension bestDim) (size_t_of_Datatype ty) sInfo
                              bestGain' begin cnt,
                    r_return = - bestGain', r_data = dat', r_responses = resp',
                    r_weights = wts', r_featImp = featImp'\<rparr>))))
        else
          (case cols resp begin cnt of Inl e \<Rightarrow> Inl e
           | Inr leafView \<Rightarrow>
               Inr \<lparr>r_node = XGBTree [] (Prediction (OutputLeafValue E leafView wts))
                              (dimensionType this) sInfo bestGain begin cnt,
                    r_return = - bestGain, r_data = dat, r_responses = resp,
                    r_weights = wts, r_featImp = featImp\<rparr>)))"
| "split_children E begin cnt info minimumLeafSize minimumGainSplit childDepth
     dimensionSelector i numChildren childCounts childAssignments dat resp wts featImp
     currentCol bestGain kids =
     (if i < numChildren then
        (case partition_pass i begin cnt currentCol (childAssignments, dat, resp, currentCol) of
           Inl e \<Rightarrow> Inl e
         | Inr (childAssignments', dat', resp', currentCol') \<Rightarrow>
        (case Train E (new_XGBTree E) dat' currentCol (currentCol' - currentCol) info resp' wts
                minimumLeafSize minimumGainSplit childDepth dimensionSelector featImp of
           Inl e \<Rightarrow> Inl e
         | Inr child \<Rightarrow>
             split_children E begin cnt info minimumLeafSize minimumGainSplit childDepth
               dimensionSelector (i + 1) numChildren childCounts childAssignments'
               (r_data child) (r_responses child) (r_weights child) (r_featImp child) currentCol'
               (bestGain + real (childCounts ! i) / real cnt * (- r_return child))
               (kids @ [r_node child])))
      else Inr (dat, resp, wts, featImp, currentCol, bestGain, kids))"
  by pat_completeness auto
termination
proof (relation "inv_image (less_than <*lex*> less_than)
   (\<lambda>x. case x of
      Inl (E, this, dat, begin, cnt, info, resp, wts, mls, mgs, maximumDepth, sel, featImp)
        \<Rightarrow> (2 * unat (maximumDepth - 1), 0)
    | Inr (E, begin, cnt, info, mls, mgs, childDepth, sel, i, numChildren, rest)
        \<Rightarrow> (2 * unat (childDepth - 1) + 1, numChildren - i))", goal_cases)
  case 1
  show ?case by (intro wf_inv_image wf_lex_prod wf_less_than)
next
  case (2 E this dat b cnt info resp wts mls mgs maximumDepth sel featImp)
  then have "maximumDepth \<noteq> 1" by (auto split: if_splits)
  then have nz: "maximumDepth - 1 \<noteq> 0" by simp
  have "unat (maximumDepth - 1 - 1) = unat (maximumDepth - 1) - 1"
    using nz by (rule unat_minus_one)
  moreover have "unat (maximumDepth - 1) \<noteq> 0"
    using nz by (simp only: unat_eq_zero not_False_eq_True)
  ultimately show ?case by simp
next
  case 3
  then show ?case by simp
next
  case 4
  then show ?case by simp
qed


text \<open>
  The constructor: it trains the node under construction on all columns of a copy of
  the data, with an empty weight vector and a selector over all rows.
\<close>

definition XGBTree_constructor ::
  "Collaborators \<Rightarrow> mat \<Rightarrow> real list \<Rightarrow> DatasetInfo \<Rightarrow> nat \<Rightarrow> real \<Rightarrow> 64 word \<Rightarrow>
   FeatureImportance option \<Rightarrow> error + TrainResult" where
  "XGBTree_constructor E dat resp info minimumLeafSize minimumGainSplit maximumDepth featImp =
     Train E (new_XGBTree E) dat 0 (length dat) info resp [] minimumLeafSize minimumGainSplit
       maximumDepth (n_rows dat) featImp"

section \<open>Predict\<close>

text \<open>
  The private \<^verbatim>\<open>CalculateDirection\<close>: it reads the union as a split dimension and the
  point at that index, unchecked, and asks the evaluator named by the stored type tag.
\<close>

definition CalculateDirection :: "Collaborators \<Rightarrow> XGBTree \<Rightarrow> real list \<Rightarrow> error + nat" where
  "CalculateDirection E node point =
     (if read_splitDimension E (slot node) < length point then
        (if Datatype_of_size_t (dimensionType node) = categorical then
           Inr (CategoricalCalculateDirection E (point ! read_splitDimension E (slot node))
                  (splitInfo node))
         else
           Inr (NumericCalculateDirection E (point ! read_splitDimension E (slot node))
                  (splitInfo node)))
      else Inl UncheckedAccess)"

function Predict :: "Collaborators \<Rightarrow> XGBTree \<Rightarrow> real list \<Rightarrow> error + real" where
  "Predict E node point =
     (if length (children node) = 0 then Inr (read_prediction E (slot node))
      else
        (case CalculateDirection E node point of Inl e \<Rightarrow> Inl e
         | Inr d \<Rightarrow>
             if d < length (children node) then Predict E (children node ! d) point
             else Inl UncheckedAccess))"
  by pat_completeness auto
termination
proof (relation "measure (\<lambda>(E, node, point). size node)", goal_cases)
  case 1
  show ?case by simp
next
  case (2 E node point d)
  then have "children node ! d \<in> set (children node)" by simp
  then have "size (children node ! d) \<le> size_list size (children node)"
    by (rule size_list_estimation') simp
  then show ?case by (cases node) simp
qed

section \<open>Prune\<close>

text \<open>
  \<^verbatim>\<open>Prune\<close> returns its flag and the node as it leaves it.  Its loop visits the
  children in order; a child whose own call returns true is erased and the index stays
  where it is (\<^verbatim>\<open>i--\<close>, which wraps at 0, followed by the \<^verbatim>\<open>++i\<close> of the loop),
  any other child stays, as its own call left it.  The loop is the recursion over the
  children not yet visited.
\<close>

fun Prune :: "real \<Rightarrow> XGBTree \<Rightarrow> bool \<times> XGBTree"
  and Prune_children :: "real \<Rightarrow> XGBTree list \<Rightarrow> XGBTree list" where
  "Prune threshold (XGBTree kids s dt sInfo gain b c) =
     (let kids' = Prune_children threshold kids;
          flag = (if gain < threshold then True else False)
      in (flag, XGBTree kids' s dt sInfo gain b c))"
| "Prune_children threshold [] = []"
| "Prune_children threshold (child # rest) =
     (let (store, child') = Prune threshold child
      in if store = True then Prune_children threshold rest
         else child' # Prune_children threshold rest)"

section \<open>An instance of the collaborators\<close>

text \<open>
  Modelled from the spec: the squared-error gain function, which is not among the
  sources.  \<open>Evaluate\<close> is the negated sum of the squared residuals from the mean of the
  responses, \<open>OutputLeafValue\<close> is their mean; the weights are not used.
\<close>

definition mean :: "real list \<Rightarrow> real" where
  "mean rs = sum_list rs / real (length rs)"

definition MSEGain_Evaluate :: "real list \<Rightarrow> real list \<Rightarrow> real" where
  "MSEGain_Evaluate rs ws = - sum_list (map (\<lambda>r. (r - mean rs) ^ 2) rs)"

definition MSEGain_OutputLeafValue :: "real list \<Rightarrow> real list \<Rightarrow> real" where
  "MSEGain_OutputLeafValue rs ws = mean rs"

text \<open>
  Modelled from the spec: the numeric split evaluator, which is not among the sources.
  The candidate thresholds lie between consecutive distinct values of the feature, in
  increasing order; a threshold sends a sample to child 0 if its value is at most the
  threshold and to child 1 otherwise, and its gain is the mean of the gains of the two
  groups, weighted by their sizes.  A threshold qualifies if no group is smaller than
  the minimum leaf size and the gain improves on the best gain so far by no less than
  the minimum gain.  The best qualifying threshold is written to the split information
  and its gain returned, and \<^verbatim>\<open>DBL_MAX\<close> if there is none.
\<close>

definition thresholds :: "real list \<Rightarrow> real list" where
  "thresholds feature =
     (let vs = sort (remdups feature) in map (\<lambda>(a, b). (a + b) / 2) (zip vs (tl vs)))"

definition group_le :: "real \<Rightarrow> real list \<Rightarrow> real list \<Rightarrow> real list" where
  "group_le t feature rs = map snd (filter (\<lambda>(v, r). v \<le> t) (zip feature rs))"

definition group_gt :: "real \<Rightarrow> real list \<Rightarrow> real list \<Rightarrow> real list" where
  "group_gt t feature rs = map snd (filter (\<lambda>(v, r). \<not> v \<le> t) (zip feature rs))"

definition threshold_gain :: "real \<Rightarrow> real list \<Rightarrow> real list \<Rightarrow> real list \<Rightarrow> real" where
  "threshold_gain t feature rs ws =
     real (length (group_le t feature rs)) / real (length rs)
       * MSEGain_Evaluate (group_le t feature rs) ws
     + real (length (group_gt t feature rs)) / real (length rs)
       * MSEGain_Evaluate (group_gt t feature rs) ws"

fun best_of :: "(real \<times> real) \<Rightarrow> (real \<times> real) list \<Rightarrow> real \<times> real" where
  "best_of b [] = b"
| "best_of (g, t) ((g', t') # rest) = (if g < g' then best_of (g', t') rest else best_of (g, t) rest)"

definition BestBinaryNumericSplit_SplitIfBetter ::
  "real \<Rightarrow> real list \<Rightarrow> real list \<Rightarrow> real list \<Rightarrow> nat \<Rightarrow> real \<Rightarrow> real list \<Rightarrow> real \<times> real list" where
  "BestBinaryNumericSplit_SplitIfBetter bestGain feature rs ws minimumLeafSize minimumGainSplit sInfo =
     (case filter (\<lambda>(g, t). minimumLeafSize \<le> length (group_le t feature rs)
                          \<and> minimumLeafSize \<le> length (group_gt t feature rs)
                          \<and> bestGain < g \<and> minimumGainSplit \<le> g - bestGain)
             (map (\<lambda>t. (threshold_gain t feature rs ws, t)) (thresholds feature)) of
        [] \<Rightarrow> (DBL_MAX, sInfo)
      | q # qs \<Rightarrow> (fst (best_of q qs), [snd (best_of q qs)]))"

definition BestBinaryNumericSplit_NumChildren :: "real list \<Rightarrow> nat" where
  "BestBinaryNumericSplit_NumChildren sInfo = 2"

definition BestBinaryNumericSplit_CalculateDirection :: "real \<Rightarrow> real list \<Rightarrow> nat" where
  "BestBinaryNumericSplit_CalculateDirection v sInfo =
     (case sInfo of [] \<Rightarrow> 0 | t # _ \<Rightarrow> if v \<le> t then 0 else 1)"

text \<open>
  Modelled from the spec: the categorical split evaluator, which is not among the
  sources.  It sends every sample to the child of its category code, with as many
  children as the dimension has categories, and rejects the split if a child is smaller
  than the minimum leaf size or the gain does not improve by the minimum gain.
\<close>

definition category :: "real \<Rightarrow> nat" where
  "category v = nat \<lfloor>v\<rfloor>"

definition group_of :: "nat \<Rightarrow> real list \<Rightarrow> real list \<Rightarrow> real list" where
  "group_of c feature rs = map snd (filter (\<lambda>(v, r). category v = c) (zip feature rs))"

definition categorical_gain :: "nat \<Rightarrow> real list \<Rightarrow> real list \<Rightarrow> real list \<Rightarrow> real" where
  "categorical_gain numCategories feature rs ws =
     sum_list (map (\<lambda>c. real (length (group_of c feature rs)) / real (length rs)
                          * MSEGain_Evaluate (group_of c feature rs) ws) [0..<numCategories])"

definition AllCategoricalSplit_SplitIfBetter ::
  "real \<Rightarrow> real list \<Rightarrow> nat \<Rightarrow> real list \<Rightarrow> real list \<Rightarrow> nat \<Rightarrow> real \<Rightarrow> real list \<Rightarrow> real \<times> real list" where
  "AllCategoricalSplit_SplitIfBetter bestGain feature numCategories rs ws minimumLeafSize
     minimumGainSplit sInfo =
     (if list_all (\<lambda>c. minimumLeafSize \<le> length (group_of c feature rs)) [0..<numCategories]
         \<and> bestGain < categorical_gain numCategories feature rs ws
         \<and> minimumGainSplit \<le> categorical_gain numCategories feature rs ws - bestGain
      then (categorical_gain numCategories feature rs ws, [real numCategories])
      else (DBL_MAX, sInfo))"

definition AllCategoricalSplit_NumChildren :: "real list \<Rightarrow> nat" where
  "AllCategoricalSplit_NumChildren sInfo = (case sInfo of [] \<Rightarrow> 0 | c # _ \<Rightarrow> nat \<lfloor>c\<rfloor>)"

definition AllCategoricalSplit_CalculateDirection :: "real \<Rightarrow> real list \<Rightarrow> nat" where
  "AllCategoricalSplit_CalculateDirection v sInfo = category v"

text \<open>
  The eight bytes of the union hold a binary64 or a 64-bit unsigned integer.  The two
  functions read the bits of the one as the other, for the finite values; a real number
  cannot tell the two zeros apart and is no infinity or NaN.
\<close>

definition pow2 :: "int \<Rightarrow> real" where
  "pow2 k = (if 0 \<le> k then 2 ^ nat k else 1 / 2 ^ nat (- k))"

definition binary64_of_bits :: "nat \<Rightarrow> real" where
  "binary64_of_bits n =
     (let m = n mod 2 ^ 52; e = (n div 2 ^ 52) mod 2 ^ 11;
          sign = (if (n div 2 ^ 63) mod 2 = 1 then - 1 else 1)
      in if e = 0 then sign * real m * pow2 (- 1074)
         else if e = 2047 then 0
         else sign * real (2 ^ 52 + m) * pow2 (int e - 1075))"

definition bits_of_binary64 :: "real \<Rightarrow> nat" where
  "bits_of_binary64 p =
     (let s = (if p < 0 then 2 ^ 63 else 0) in
      if \<bar>p\<bar> < pow2 (- 1022) then s + nat \<lfloor>\<bar>p\<bar> / pow2 (- 1074)\<rfloor>
      else
        (case find (\<lambda>e. \<bar>p\<bar> < 2 ^ 53 * pow2 (int e - 1075)) [1..<2047] of
           None \<Rightarrow> s + 2047 * 2 ^ 52
         | Some e \<Rightarrow> s + e * 2 ^ 52 + (nat \<lfloor>\<bar>p\<bar> / pow2 (int e - 1075)\<rfloor> - 2 ^ 52)))"

definition reference :: Collaborators where
  "reference =
     \<lparr>Evaluate = MSEGain_Evaluate,
      OutputLeafValue = MSEGain_OutputLeafValue,
      NumericSplitIfBetter = BestBinaryNumericSplit_SplitIfBetter,
      CategoricalSplitIfBetter = AllCategoricalSplit_SplitIfBetter,
      NumericNumChildren = BestBinaryNumericSplit_NumChildren,
      CategoricalNumChildren = AllCategoricalSplit_NumChildren,
      NumericCalculateDirection = BestBinaryNumericSplit_CalculateDirection,
      CategoricalCalculateDirection = AllCategoricalSplit_CalculateDirection,
      double_of_size_t_bits = binary64_of_bits,
      size_t_of_double_bits = bits_of_binary64,
      uninitialised = XGBTree [] (SplitDimension 0) 0 [] 0 0 0\<rparr>"

section \<open>Vocabulary of the statements\<close>

text \<open>All nodes of a tree, the root first.\<close>

fun nodes :: "XGBTree \<Rightarrow> XGBTree list" where
  "nodes (XGBTree kids s dt sInfo gain b c) =
     XGBTree kids s dt sInfo gain b c # concat (map nodes kids)"

text \<open>
  A run of \<^verbatim>\<open>Train\<close> that the closed statements below refer to: four samples with a
  constant first feature, depth budget 2, and a sink that has counted nothing yet.  The
  second feature is split at 5/2; the two children are leaves.
\<close>

abbreviation example_sink :: FeatureImportance where
  "example_sink \<equiv> \<lparr>frequency = \<lambda>d. 0, cover = \<lambda>d. 0\<rparr>"

abbreviation example_run :: "error + TrainResult" where
  "example_run \<equiv>
     Train reference (new_XGBTree reference) [[7, 3], [7, 1], [7, 4], [7, 2]] 0 4
       [(numeric, 0), (numeric, 0)] [10, 0, 11, 0] [1, 2, 3, 4] 1 0 2 2 (Some example_sink)"

abbreviation example_tree :: XGBTree where
  "example_tree \<equiv>
     XGBTree [XGBTree [] (Prediction 0) 0 [] 0 0 2, XGBTree [] (Prediction (21 / 2)) 0 [] (- 1 / 2) 2 2]
       (SplitDimension 1) 0 [5 / 2] (- 1 / 4) 0 4"

section \<open>The example run\<close>

declare Train.simps [simp del] split_children.simps [simp del] partition_pass.simps [simp del]

lemma example_run_result:
  "case example_run of Inl e \<Rightarrow> False
   | Inr r \<Rightarrow>
       r_node r = example_tree \<and> r_return r = 1 / 4
       \<and> r_data r = [[7, 1], [7, 2], [7, 4], [7, 3]] \<and> r_responses r = [0, 0, 11, 10]
       \<and> r_weights r = [1, 2, 3, 4]
       \<and> (case r_featImp r of None \<Rightarrow> False
          | Some f \<Rightarrow> map (frequency f) [0, 1, 2] = [0, 1, 0]
                      \<and> map (cover f) [0, 1, 2] = [0, - 1 / 4, 0])"
  by code_simp

section \<open>Properties of Prune\<close>

lemma Prune_flag: "fst (Prune t node) = (nodeGain node < t)"
  by (cases node) (simp add: Let_def)

lemma Prune_nodeGain: "nodeGain (snd (Prune t node)) = nodeGain node"
  by (cases node) (simp add: Let_def)

lemma Prune_children_of: "children (snd (Prune t node)) = Prune_children t (children node)"
  by (cases node) (simp add: Let_def)

lemma Prune_slot: "slot (snd (Prune t node)) = slot node"
  by (cases node) (simp add: Let_def)

lemma Prune_children_Cons:
  "Prune_children t (child # rest) =
     (if nodeGain child < t then Prune_children t rest
      else snd (Prune t child) # Prune_children t rest)"
  using Prune_flag[of t child] by (cases "Prune t child") auto

lemma Prune_twice: "snd (Prune t (snd (Prune t node))) = snd (Prune t node)"
proof (induction node)
  case (XGBTree kids s dt sInfo gain b c)
  have "Prune_children t (Prune_children t ks) = Prune_children t ks"
    if "set ks \<subseteq> set kids" for ks
    using that
  proof (induction ks)
    case Nil
    show ?case by simp
  next
    case (Cons k ks)
    then have "snd (Prune t (snd (Prune t k))) = snd (Prune t k)"
      using XGBTree.IH by simp
    with Cons show ?case
      by (simp add: Prune_children_Cons Prune_nodeGain del: Prune_children.simps(2))
  qed
  then show ?case by (simp add: Let_def)
qed

lemma node_in_nodes: "node \<in> set (nodes node)"
  by (cases node) simp

lemma nodes_child: "k \<in> set (children node) \<Longrightarrow> n \<in> set (nodes k) \<Longrightarrow> n \<in> set (nodes node)"
  by (cases node) auto

lemma Prune_below:
  "(\<forall>n\<in>set (nodes node). t < nodeGain n) \<Longrightarrow> snd (Prune t node) = node"
proof (induction node)
  case (XGBTree kids s dt sInfo gain b c)
  have "Prune_children t ks = ks" if "set ks \<subseteq> set kids" for ks
    using that
  proof (induction ks)
    case Nil
    show ?case by simp
  next
    case (Cons k ks)
    then have k: "k \<in> set kids" by simp
    have all: "\<forall>n\<in>set (nodes k). t < nodeGain n"
      using XGBTree.prems k by auto
    then have "t < nodeGain k" using node_in_nodes[of k] by blast
    moreover have "snd (Prune t k) = k" using XGBTree.IH k all by blast
    ultimately show ?case using Cons
      by (simp add: Prune_children_Cons del: Prune_children.simps(2))
  qed
  then show ?case by (simp add: Let_def)
qed

lemma Prune_above:
  "(\<forall>k\<in>set kids. nodeGain k < t) \<Longrightarrow> Prune_children t kids = []"
  by (induction kids) (simp_all add: Prune_children_Cons del: Prune_children.simps(2))

text \<open>
  Claim C7.  Prune is idempotent: for every tree and every threshold, a second call of
  Prune with the same threshold on the tree that the first call left returns the same
  flag and changes nothing, neither the structure nor any member of any node.
\<close>

theorem Prune_idempotent: "Prune t (snd (Prune t node)) = Prune t node"
  by (simp add: prod_eq_iff Prune_flag Prune_nodeGain Prune_twice)

text \<open>
  Claim C8.  If the threshold is strictly below the cached gain of every node of the
  tree, Prune leaves the tree as it is; if it is strictly above the cached gain of every
  node, Prune leaves the root with no children.
\<close>

theorem Prune_extreme_thresholds:
  "((\<forall>n\<in>set (nodes node). t < nodeGain n) \<longrightarrow> snd (Prune t node) = node)
   \<and> ((\<forall>n\<in>set (nodes node). nodeGain n < t) \<longrightarrow> children (snd (Prune t node)) = [])"
proof (intro conjI impI)
  assume "\<forall>n\<in>set (nodes node). t < nodeGain n"
  then show "snd (Prune t node) = node" by (rule Prune_below)
next
  assume a: "\<forall>n\<in>set (nodes node). nodeGain n < t"
  have "\<forall>k\<in>set (children node). nodeGain k < t"
    using a nodes_child[OF _ node_in_nodes] by blast
  then show "children (snd (Prune t node)) = []"
    by (simp add: Prune_children_of Prune_above)
qed

theorem Prune_extreme_thresholds_witness:
  "list_all (\<lambda>n. - 1 < nodeGain n) (nodes example_tree)
   \<and> snd (Prune (- 1) example_tree) = example_tree
   \<and> list_all (\<lambda>n. nodeGain n < 1) (nodes example_tree)
   \<and> children (snd (Prune 1 example_tree)) = []"
proof -
  have below: "\<forall>n\<in>set (nodes example_tree). - 1 < nodeGain n" by simp
  have above: "\<forall>n\<in>set (nodes example_tree). nodeGain n < 1" by simp
  from below Prune_extreme_thresholds [of example_tree "- 1"]
  have "snd (Prune (- 1) example_tree) = example_tree" by blast
  moreover from above Prune_extreme_thresholds [of example_tree 1]
  have "children (snd (Prune 1 example_tree)) = []" by blast
  ultimately show ?thesis using below above by (simp only: list_all_iff)
qed

section \<open>Properties of Predict\<close>

text \<open>
  Claim C10.  On a node without children Predict returns the union slot read as a
  prediction, whatever the point and the split information are.  In particular, when
  the node holds a split dimension and Prune removes all its children, Predict on what
  is left returns the bits of the split dimension read as a double.
\<close>

theorem Predict_childless:
  "(children node = [] \<longrightarrow> Predict E node point = Inr (read_prediction E (slot node)))
   \<and> (slot node = SplitDimension d \<and> list_all (\<lambda>k. nodeGain k < t) (children node)
        \<longrightarrow> Predict E (snd (Prune t node)) point = Inr (double_of_size_t_bits E d))"
proof (intro conjI impI)
  assume "children node = []"
  then show "Predict E node point = Inr (read_prediction E (slot node))" by simp
next
  assume a: "slot node = SplitDimension d \<and> list_all (\<lambda>k. nodeGain k < t) (children node)"
  then have "children (snd (Prune t node)) = []"
    by (simp add: Prune_children_of Prune_above list_all_iff)
  then show "Predict E (snd (Prune t node)) point = Inr (double_of_size_t_bits E d)"
    using a by (simp add: Prune_slot read_prediction_def)
qed

theorem Predict_childless_witness:
  "slot example_tree = SplitDimension 1
   \<and> list_all (\<lambda>k. nodeGain k < 1) (children example_tree)
   \<and> Predict reference (snd (Prune 1 example_tree)) [7, 4] = Inr (1 / 2 ^ 1074)
   \<and> children (XGBTree [] (Prediction (21 / 2)) 0 [] (- 1 / 2) 2 2) = []
   \<and> Predict reference (XGBTree [] (Prediction (21 / 2)) 0 [] (- 1 / 2) 2 2) [7, 4] = Inr (21 / 2)"
proof -
  have h: "slot example_tree = SplitDimension 1
    \<and> list_all (\<lambda>k. nodeGain k < 1) (children example_tree)" by simp
  have bits: "double_of_size_t_bits reference 1 = 1 / 2 ^ 1074"
    by (simp add: reference_def binary64_of_bits_def pow2_def)
  from h Predict_childless [where node = example_tree and d = 1 and t = 1 and E = reference
      and point = "[7, 4]"]
  have "Predict reference (snd (Prune 1 example_tree)) [7, 4]
          = Inr (double_of_size_t_bits reference 1)" by blast
  then have pruned: "Predict reference (snd (Prune 1 example_tree)) [7, 4] = Inr (1 / 2 ^ 1074)"
    unfolding bits .
  have leaf: "children (XGBTree [] (Prediction (21 / 2)) 0 [] (- 1 / 2) 2 2) = []" by simp
  from leaf Predict_childless [where node = "XGBTree [] (Prediction (21 / 2)) 0 [] (- 1 / 2) 2 2"
      and E = reference and point = "[7, 4]"]
  have "Predict reference (XGBTree [] (Prediction (21 / 2)) 0 [] (- 1 / 2) 2 2) [7, 4]
          = Inr (read_prediction reference
                   (slot (XGBTree [] (Prediction (21 / 2)) 0 [] (- 1 / 2) 2 2)))" by blast
  then have "Predict reference (XGBTree [] (Prediction (21 / 2)) 0 [] (- 1 / 2) 2 2) [7, 4]
          = Inr (21 / 2)"
    by (simp add: read_prediction_def)
  with pruned h leaf show ?thesis by blast
qed

section \<open>Train with a depth budget of one\<close>

lemma cols_Inr:
  "cols x b c = Inr v \<longleftrightarrow> c \<noteq> 0 \<and> b + c \<le> length x \<and> v = take c (drop b x)"
  by (auto simp: cols_def)

text \<open>
  Claim C6.  With \<^verbatim>\<open>maximumDepth == 1\<close>, Train on a non-empty range of the responses
  builds a single leaf, with no children, whose prediction is the leaf value of the
  gain function over that range, whatever the data and the other parameters are; it
  moves no column.
\<close>

theorem Train_depth_one:
  assumes "0 < cnt" and "begin + cnt \<le> length resp"
  shows "\<exists>r. Train E this dat begin cnt info resp wts minimumLeafSize minimumGainSplit 1
                dimensionSelector featImp = Inr r
           \<and> children (r_node r) = []
           \<and> slot (r_node r) = Prediction (OutputLeafValue E (take cnt (drop begin resp)) wts)
           \<and> r_data r = dat \<and> r_responses r = resp"
  using assms by (simp add: Train.simps cols_def)

theorem Train_depth_one_witness:
  "(0::nat) < 4 \<and> (0::nat) + 4 \<le> length [10, 0, 11, 0 :: real]
   \<and> (\<exists>r. Train reference (new_XGBTree reference) [[7, 3], [7, 1], [7, 4], [7, 2]] 0 4
             [(numeric, 0), (numeric, 0)] [10, 0, 11, 0] [] 1 0 1 2 None = Inr r
           \<and> children (r_node r) = []
           \<and> slot (r_node r) = Prediction (21 / 4)
           \<and> r_data r = [[7, 3], [7, 1], [7, 4], [7, 2]] \<and> r_responses r = [10, 0, 11, 0])"
proof -
  have h1: "(0::nat) < 4" and h2: "(0::nat) + 4 \<le> length [10, 0, 11, 0 :: real]" by simp_all
  have v: "OutputLeafValue reference (take 4 (drop 0 [10, 0, 11, 0])) [] = 21 / 4"
    by (simp add: reference_def MSEGain_OutputLeafValue_def mean_def)
  from Train_depth_one [OF h1 h2, where E = reference and this = "new_XGBTree reference"
      and dat = "[[7, 3], [7, 1], [7, 4], [7, 2]]" and info = "[(numeric, 0), (numeric, 0)]"
      and wts = "[]" and minimumLeafSize = 1 and minimumGainSplit = 0
      and dimensionSelector = 2 and featImp = None]
  have "\<exists>r. Train reference (new_XGBTree reference) [[7, 3], [7, 1], [7, 4], [7, 2]] 0 4
             [(numeric, 0), (numeric, 0)] [10, 0, 11, 0] [] 1 0 1 2 None = Inr r
           \<and> children (r_node r) = []
           \<and> slot (r_node r) = Prediction (21 / 4)
           \<and> r_data r = [[7, 3], [7, 1], [7, 4], [7, 2]] \<and> r_responses r = [10, 0, 11, 0]"
    unfolding v .
  with h1 h2 show ?thesis by blast
qed

end
